theory Spec2Isabelle
  imports Complex_Main
begin

section \<open>Data model of \<open>scrobbler.py\<close>\<close>

text \<open>
  The notification's \<open>userInfo\<close> dictionary, restricted to the keys the program reads.
  A field is \<open>None\<close> when the key is missing (what \<open>userinfo.get(key)\<close> returns).
  Field names are the dictionary keys: \<open>Player State\<close>, \<open>Artist\<close>, \<open>Album Artist\<close>,
  \<open>Name\<close>, \<open>Album\<close>, \<open>Track Number\<close>, \<open>Total Time\<close> (milliseconds) and
  \<open>PersistentID\<close> (a Python int, read by the bridge as a signed 64-bit number).
\<close>

record userinfo =
  Player_State :: "string option"
  Artist :: "string option"
  Album_Artist :: "string option"
  Name :: "string option"
  Album :: "string option"
  Track_Number :: "int option"
  Total_Time :: "int option"
  PersistentID :: "int option"

text \<open>
  What \<open>self.itunes.currentTrack()\<close> answers: one field per accessor the program
  calls. \<open>duration\<close> is in seconds; floating-point values are modelled as exact
  rationals.
\<close>

record track =
  persistentID :: "string option"
  artist :: "string option"
  name :: "string option"
  album :: "string option"
  albumArtist :: "string option"
  trackNumber :: "int option"
  duration :: "rat option"

text \<open>
  Everything a handler observes from outside while it runs: the player
  (\<open>self.itunes\<close>), the clock (\<open>time.time()\<close>) and whether the remote call to the
  tracking service raises. The clock and the playback position are doubles, given by
  their exact values.
\<close>

record env =
  playerState :: int
  currentTrack :: track
  playerPosition :: rat
  time_now :: rat
  lastfm_raises :: bool

text \<open>The keyword arguments of the two remote calls; \<open>timestamp\<close> is absent
  (\<open>None\<close>) in a Now-Playing update.\<close>

record kwargs =
  kw_artist :: "string option"
  kw_title :: "string option"
  kw_album :: "string option"
  kw_album_artist :: "string option"
  kw_track_number :: "int option"
  kw_duration :: "int option"
  kw_timestamp :: "int option"

datatype level = INFO | WARNING

text \<open>
  The observable actions of the program, in the order they happen: the two remote
  calls, the blocking sleep, and the log records above debug level (debug records are
  not modelled).
\<close>

datatype action =
    UpdateNowPlaying kwargs
  | Scrobble kwargs
  | Sleep nat
  | Log level string

datatype error = TypeError | RemoteError

text \<open>
  The timer primitive (\<open>NSTimer\<close>, scheduled non-repeating). A timer is
  \<open>Scheduled\<close> from its creation until it fires or is invalidated; \<open>isValid\<close>
  answers true exactly then. Invalidating is idempotent and does nothing to a timer
  that has already fired.
\<close>

datatype timer_status = Scheduled | Fired | Invalidated

record timer =
  timeInterval :: int
  userInfo :: userinfo
  status :: timer_status

definition isValid :: "timer \<Rightarrow> bool" where
  "isValid t = (status t = Scheduled)"

text \<open>
  The program state: the \<open>scrobble_timer\<close> attribute (a handle, the index of the
  timer among all timers ever created), the timers of the run loop, and the actions
  performed so far.
\<close>

record world =
  scrobble_timer :: "nat option"
  timers :: "timer list"
  trace :: "action list"

definition emit :: "action \<Rightarrow> world \<Rightarrow> world" where
  "emit a w = w\<lparr>trace := trace w @ [a]\<rparr>"

definition invalidate :: "nat \<Rightarrow> timer list \<Rightarrow> timer list" where
  "invalidate h ts =
     (if h < length ts \<and> status (ts ! h) = Scheduled
      then ts[h := (ts ! h)\<lparr>status := Invalidated\<rparr>]
      else ts)"

definition scheduledTimer :: "int \<Rightarrow> userinfo \<Rightarrow> world \<Rightarrow> world" where
  "scheduledTimer timeout u w =
     w\<lparr>scrobble_timer := Some (length (timers w)),
       timers := timers w @ [\<lparr>timeInterval = timeout, userInfo = u, status = Scheduled\<rparr>]\<rparr>"

section \<open>Constants and Python primitives\<close>

fun int_from_bytes_big :: "string \<Rightarrow> int" where
  "int_from_bytes_big bs = foldl (\<lambda>a c. a * 256 + of_char c) 0 bs"

definition ITUNES_PLAYER_STATE_STOPPED :: int where
  "ITUNES_PLAYER_STATE_STOPPED = int_from_bytes_big ''kPSS''"

definition ITUNES_PLAYER_STATE_PLAYING :: int where
  "ITUNES_PLAYER_STATE_PLAYING = int_from_bytes_big ''kPSP''"

definition SCROBBLER_MIN_TRACK_LENGTH :: rat where
  "SCROBBLER_MIN_TRACK_LENGTH = 30"

definition SCROBBLER_HALFWAY_THRESHOLD :: int where
  "SCROBBLER_HALFWAY_THRESHOLD = 240"

text \<open>Python truthiness of an optional string: \<open>None\<close> and \<open>""\<close> are false.\<close>

fun truthy :: "string option \<Rightarrow> bool" where
  "truthy None = False"
| "truthy (Some s) = (s \<noteq> [])"

text \<open>\<open>int(x)\<close> on a float truncates towards zero.\<close>

definition py_int :: "rat \<Rightarrow> int" where
  "py_int x = (if 0 \<le> x then \<lfloor>x\<rfloor> else \<lceil>x\<rceil>)"

subsection \<open>Double-precision subtraction\<close>

text \<open>
  \<open>time.time() - playerPosition()\<close> subtracts two doubles: the result is the exact
  difference rounded to the nearest double, ties to the even mantissa. A double has a
  53-bit mantissa; below \<open>2^-1022\<close> the spacing stays that of the smallest normal
  numbers. Infinities and NaN are not modelled.
\<close>

fun ilog2 :: "nat \<Rightarrow> nat" where
  "ilog2 n = (if n < 2 then 0 else Suc (ilog2 (n div 2)))"

declare ilog2.simps [simp del]

definition pow2 :: "int \<Rightarrow> rat" where
  "pow2 k = (if 0 \<le> k then 2 ^ nat k else 1 / 2 ^ nat (- k))"

text \<open>The binary exponent of a non-zero value: \<open>2^e \<le> |x| < 2^(e+1)\<close>.\<close>

definition exponent :: "rat \<Rightarrow> int" where
  "exponent x =
     (let a = \<bar>x\<bar> in
      if 1 \<le> a then int (ilog2 (nat \<lfloor>a\<rfloor>))
      else - int (Suc (ilog2 (nat (\<lceil>1 / a\<rceil> - 1)))))"

definition round_half_even :: "rat \<Rightarrow> int" where
  "round_half_even m =
     (let f = \<lfloor>m\<rfloor>; d = m - of_int f in
      if d < 1 / 2 then f else if 1 / 2 < d then f + 1 else if even f then f else f + 1)"

definition round_double :: "rat \<Rightarrow> rat" where
  "round_double x =
     (if x = 0 then 0
      else let q = pow2 (max (exponent x) (- 1022) - 52)
           in of_int (round_half_even (x / q)) * q)"

definition float_sub :: "rat \<Rightarrow> rat \<Rightarrow> rat" where
  "float_sub a b = round_double (a - b)"

text \<open>\<open>userinfo.get("Total Time", 0)\<close>.\<close>

definition total_time :: "userinfo \<Rightarrow> int" where
  "total_time u = (case Total_Time u of None \<Rightarrow> 0 | Some t \<Rightarrow> t)"

text \<open>\<open>userinfo.get("Total Time", 0) // 1000 or None\<close>.\<close>

definition duration_or_None :: "userinfo \<Rightarrow> int option" where
  "duration_or_None u = (let q = total_time u div 1000 in if q = 0 then None else Some q)"

subsection \<open>The format \<open>{:016X}\<close>\<close>

definition hex_digit :: "nat \<Rightarrow> char" where
  "hex_digit d = ''0123456789ABCDEF'' ! d"

fun hex_upper :: "nat \<Rightarrow> string" where
  "hex_upper n = (if n < 16 then [hex_digit n] else hex_upper (n div 16) @ [hex_digit (n mod 16)])"

declare hex_upper.simps [simp del]

definition zero_pad :: "nat \<Rightarrow> string \<Rightarrow> string" where
  "zero_pad width s = replicate (width - length s) (CHR ''0'') @ s"

text \<open>Zero padding is sign-aware: the sign comes first and counts in the width.\<close>

definition format_016X :: "int \<Rightarrow> string" where
  "format_016X n =
     (if n < 0 then CHR ''-'' # zero_pad 15 (hex_upper (nat (- n)))
      else zero_pad 16 (hex_upper (nat n)))"

text \<open>Reading a string of hexadecimal digits back, to state what the format means.\<close>

definition digit_value :: "char \<Rightarrow> nat" where
  "digit_value c = length (takeWhile (\<lambda>x. x \<noteq> c) ''0123456789ABCDEF'')"

definition hex_value :: "string \<Rightarrow> nat" where
  "hex_value s = foldl (\<lambda>a c. 16 * a + digit_value c) 0 s"

text \<open>Lines 145-147: the sign correction of the snapshot's persistent id.\<close>

definition toUnsigned64 :: "int \<Rightarrow> int" where
  "toUnsigned64 v = (if v < 0 then v + 2 ^ 64 else v)"

text \<open>Lines 144-148: the expected persistent id, as compared at fire time.\<close>

definition expected_persistent_id :: "int \<Rightarrow> string" where
  "expected_persistent_id v = format_016X (toUnsigned64 v)"

section \<open>The handlers\<close>

text \<open>
  One definition per method of the class \<open>Scrobbler\<close>, under the method's name (the
  selectors \<open>receivedNotification_\<close> and \<open>scrobbleTimerFired_\<close> without their
  trailing underscore). A handler takes the state and returns the new one, with the
  exception it raised, if any.
\<close>

definition cancel_scrobble_timer :: "world \<Rightarrow> world" where
  "cancel_scrobble_timer w =
     (case scrobble_timer w of
        Some h \<Rightarrow> w\<lparr>timers := invalidate h (timers w), scrobble_timer := None\<rparr>
      | None \<Rightarrow> w)"

definition now_playing_kwargs :: "userinfo \<Rightarrow> kwargs" where
  "now_playing_kwargs u =
     \<lparr>kw_artist = Artist u, kw_title = Name u, kw_album = Album u,
      kw_album_artist = Album_Artist u, kw_track_number = Track_Number u,
      kw_duration = duration_or_None u, kw_timestamp = None\<rparr>"

definition update_now_playing :: "env \<Rightarrow> userinfo \<Rightarrow> world \<Rightarrow> (error + bool) \<times> world" where
  "update_now_playing e u w =
     (let kw = now_playing_kwargs u in
      if \<not> truthy (kw_artist kw) \<or> \<not> truthy (kw_title kw) then (Inr False, w)
      else
        let w' = emit (UpdateNowPlaying kw) w in
        if lastfm_raises e then (Inl RemoteError, w') else (Inr True, w'))"

datatype decision = Abandon | ScheduleAfter int

text \<open>
  Lines 102-114 of \<open>prepare_to_scrobble\<close>: from the event's \<open>Total Time\<close> and what
  \<open>currentTrack().duration()\<close> answers after the sleep (only consulted when the length
  is zero), whether a timer is set up and after how many seconds.
\<close>

definition decide :: "int \<Rightarrow> rat option \<Rightarrow> decision" where
  "decide total_ms fallback =
     (let track_length = rat_of_int total_ms / 1000 in
      if track_length = 0 then
        (case fallback of
           None \<Rightarrow> Abandon
         | Some d \<Rightarrow>
             if d = 0 then Abandon
             else ScheduleAfter (min \<lceil>d / 2\<rceil> SCROBBLER_HALFWAY_THRESHOLD))
      else if track_length < SCROBBLER_MIN_TRACK_LENGTH then Abandon
      else ScheduleAfter (min \<lceil>track_length / 2\<rceil> SCROBBLER_HALFWAY_THRESHOLD))"

definition no_id_warning :: string where
  "no_id_warning = ''Track being played doesn't have a PersistentID, so can't prepare to scrobble it!''"

definition prepare_to_scrobble :: "env \<Rightarrow> userinfo \<Rightarrow> world \<Rightarrow> world" where
  "prepare_to_scrobble e u w =
     (let w1 = cancel_scrobble_timer w in
      if PersistentID u = None then emit (Log WARNING no_id_warning) w1
      else
        let w2 = (if total_time u = 0 then emit (Sleep 5) w1 else w1) in
        case decide (total_time u) (duration (currentTrack e)) of
          Abandon \<Rightarrow> w2
        | ScheduleAfter timeout \<Rightarrow> scheduledTimer timeout u w2)"

definition unrecognised_state :: string where
  "unrecognised_state = ''Unrecognised player state: {}''"

definition receivedNotification :: "env \<Rightarrow> userinfo \<Rightarrow> world \<Rightarrow> error option \<times> world" where
  "receivedNotification e userinfo w =
     (let state = Player_State userinfo in
      if state = Some ''Playing'' then
        (case update_now_playing e userinfo w of
           (Inl err, w') \<Rightarrow> (Some err, w')
         | (Inr should_scrobble, w') \<Rightarrow>
             if should_scrobble then (None, prepare_to_scrobble e userinfo w')
             else (None, w'))
      else if state = Some ''Paused'' \<or> state = Some ''Stopped'' then
        (None, cancel_scrobble_timer w)
      else (None, emit (Log INFO unrecognised_state) w))"

definition invalid_timer_warning :: string where
  "invalid_timer_warning = ''Received a fire event from an invalid timer, not scrobbling''"

definition different_track_warning :: string where
  "different_track_warning =
     ''Track now playing is different to the one that prompted timer, not scrobbling: {} (expected) vs {} (actual)''"

definition no_live_id_warning :: string where
  "no_live_id_warning =
     ''Track playing has no persistent ID, assuming it's an Apple Music stream and scrobbling based on metadata from original notification''"

definition current_track_kwargs :: "track \<Rightarrow> int \<Rightarrow> kwargs" where
  "current_track_kwargs t d =
     \<lparr>kw_artist = artist t, kw_title = name t, kw_album = album t,
      kw_album_artist = albumArtist t, kw_track_number = trackNumber t,
      kw_duration = Some d, kw_timestamp = None\<rparr>"

definition snapshot_kwargs :: "userinfo \<Rightarrow> kwargs" where
  "snapshot_kwargs u =
     \<lparr>kw_artist = Artist u, kw_title = Name u, kw_album = Album u,
      kw_album_artist = Album_Artist u, kw_track_number = Track_Number u,
      kw_duration = duration_or_None u, kw_timestamp = None\<rparr>"

definition submit :: "env \<Rightarrow> kwargs \<Rightarrow> world \<Rightarrow> error option \<times> world" where
  "submit e kw w =
     (let kw' = kw\<lparr>kw_timestamp :=
                    Some (py_int (float_sub (time_now e) (playerPosition e)))\<rparr>;
          w' = emit (Scrobble kw') w
      in if lastfm_raises e then (Some RemoteError, w') else (None, w'))"

definition scrobbleTimerFired :: "env \<Rightarrow> timer \<Rightarrow> world \<Rightarrow> error option \<times> world" where
  "scrobbleTimerFired e tm w =
     (if \<not> isValid tm then (None, emit (Log WARNING invalid_timer_warning) w)
      else if playerState e \<noteq> ITUNES_PLAYER_STATE_PLAYING then (None, w)
      else
        let userinfo = userInfo tm in
        case PersistentID userinfo of
          None \<Rightarrow> (Some TypeError, w)
        | Some pid \<Rightarrow>
            let expected = expected_persistent_id pid;
                current_track = currentTrack e;
                actual_persistent_id = persistentID current_track
            in
              if actual_persistent_id \<noteq> None \<and> actual_persistent_id \<noteq> Some expected then
                (None, emit (Log WARNING different_track_warning) w)
              else if actual_persistent_id = None then
                submit e (snapshot_kwargs userinfo) (emit (Log WARNING no_live_id_warning) w)
              else
                (case duration current_track of
                   None \<Rightarrow> (Some TypeError, w)
                 | Some d \<Rightarrow> submit e (current_track_kwargs current_track (py_int d)) w))"

section \<open>The run loop\<close>

text \<open>
  One event loop delivers notifications and timer fires, one at a time. Only a
  scheduled timer fires; once its callback has returned the timer is no longer valid.
  An exception raised by a handler ends that handler only.
\<close>

datatype event = Notification env userinfo | TimerFires nat env

definition mark_fired :: "nat \<Rightarrow> world \<Rightarrow> world" where
  "mark_fired h w =
     (if h < length (timers w) \<and> status (timers w ! h) = Scheduled
      then w\<lparr>timers := (timers w)[h := (timers w ! h)\<lparr>status := Fired\<rparr>]\<rparr>
      else w)"

fun step :: "world \<Rightarrow> event \<Rightarrow> world" where
  "step w (Notification e u) = snd (receivedNotification e u w)"
| "step w (TimerFires h e) =
     (if h < length (timers w) \<and> isValid (timers w ! h)
      then mark_fired h (snd (scrobbleTimerFired e (timers w ! h) w))
      else w)"

definition run :: "world \<Rightarrow> event list \<Rightarrow> world" where
  "run w es = foldl step w es"

definition initial :: world where
  "initial = \<lparr>scrobble_timer = None, timers = [], trace = []\<rparr>"

text \<open>The handles of the timers that are live: neither fired nor cancelled.\<close>

definition live_handles :: "world \<Rightarrow> nat list" where
  "live_handles w = filter (\<lambda>h. isValid (timers w ! h)) [0 ..< length (timers w)]"

text \<open>The actions a handler added, given the state before and the state after.\<close>

definition new_actions :: "world \<Rightarrow> world \<Rightarrow> action list" where
  "new_actions w w' = drop (length (trace w)) (trace w')"

text \<open>Every live timer is the one the \<open>scrobble_timer\<close> attribute holds.\<close>

definition timer_inv :: "world \<Rightarrow> bool" where
  "timer_inv w = (\<forall>h. h < length (timers w) \<and> isValid (timers w ! h) \<longrightarrow> scrobble_timer w = Some h)"

section \<open>Concrete inputs\<close>

definition example_userinfo :: userinfo where
  "example_userinfo =
     \<lparr>Player_State = Some ''Playing'', Artist = Some ''Nina Simone'',
      Album_Artist = Some ''Nina Simone'', Name = Some ''Sinnerman'',
      Album = Some ''Pastel Blues'', Track_Number = Some 9,
      Total_Time = Some 200000, PersistentID = Some (- 1)\<rparr>"

definition example_track :: track where
  "example_track =
     \<lparr>persistentID = Some ''FFFFFFFFFFFFFFFF'', artist = Some ''Nina Simone'',
      name = Some ''Sinnerman (Live)'', album = Some ''Pastel Blues'',
      albumArtist = Some ''Nina Simone'', trackNumber = Some 9,
      duration = Some (401 / 2)\<rparr>"

definition example_env :: env where
  "example_env =
     \<lparr>playerState = ITUNES_PLAYER_STATE_PLAYING, currentTrack = example_track,
      playerPosition = 7 / 2, time_now = 1000, lastfm_raises = False\<rparr>"

definition example_timer :: timer where
  "example_timer = \<lparr>timeInterval = 100, userInfo = example_userinfo, status = Scheduled\<rparr>"

section \<open>Evaluating the primitives\<close>

lemmas policy_defs = decide_def SCROBBLER_MIN_TRACK_LENGTH_def SCROBBLER_HALFWAY_THRESHOLD_def

lemma hex_upper_max64: "hex_upper 18446744073709551615 = ''FFFFFFFFFFFFFFFF''"
  by (simp add: hex_upper.simps hex_digit_def)

lemma expected_minus_one: "expected_persistent_id (- 1) = ''FFFFFFFFFFFFFFFF''"
  by (simp add: expected_persistent_id_def toUnsigned64_def format_016X_def zero_pad_def
      hex_upper_max64)

lemma py_int_examples: "py_int (1993 / 2) = 996" "py_int (401 / 2) = 200"
  by (simp_all add: py_int_def floor_eq_iff)

subsection \<open>Rounding to a double\<close>

lemma ilog2_le: "1 \<le> n \<Longrightarrow> 2 ^ ilog2 n \<le> n"
proof (induction n rule: ilog2.induct)
  case (1 n)
  show ?case
  proof (cases "n < 2")
    case True
    with 1 show ?thesis by (subst ilog2.simps) simp
  next
    case False
    then have "1 \<le> n div 2" by simp
    with 1 False have "2 ^ ilog2 (n div 2) \<le> n div 2" by simp
    then have "2 * 2 ^ ilog2 (n div 2) \<le> 2 * (n div 2)" by simp
    also have "\<dots> \<le> n" by simp
    finally show ?thesis using False by (subst ilog2.simps) simp
  qed
qed

lemma pow2_pos: "0 < pow2 k"
  by (simp add: pow2_def)

lemma pow2_neg: "k < 0 \<Longrightarrow> pow2 k = 1 / 2 ^ nat (- k)"
  by (simp add: pow2_def)

lemma round_half_even_int [simp]: "round_half_even (of_int k) = k"
  by (simp add: round_half_even_def)

lemma round_half_even_lower: "of_int k \<le> m \<Longrightarrow> k \<le> round_half_even m"
proof -
  assume "of_int k \<le> m"
  then have "k \<le> \<lfloor>m\<rfloor>" by (simp add: le_floor_iff)
  then show ?thesis by (simp add: round_half_even_def Let_def)
qed

lemma round_half_even_upper: "m \<le> of_int k \<Longrightarrow> round_half_even m \<le> k"
proof (cases "m = of_int k")
  case True
  then show ?thesis by simp
next
  case False
  assume "m \<le> of_int k"
  with False have "m < of_int k" by simp
  then have "\<lfloor>m\<rfloor> < k" by (simp add: floor_less_iff)
  then show ?thesis by (simp add: round_half_even_def Let_def)
qed

lemma exponent_less:
  assumes "0 < x" and "x < 2 ^ 52"
  shows "exponent x < 52"
proof (cases "1 \<le> x")
  case True
  let ?n = "nat \<lfloor>x\<rfloor>"
  from True have n1: "1 \<le> ?n" by (simp add: le_floor_iff le_nat_iff)
  have "rat_of_nat (2 ^ ilog2 ?n) \<le> rat_of_nat ?n"
    using ilog2_le [OF n1] by (simp only: of_nat_le_iff)
  also have "rat_of_nat ?n = of_int \<lfloor>x\<rfloor>"
    using True by simp
  also have "\<dots> \<le> x" by simp
  also have "x < 2 ^ 52" by fact
  finally have "(2::rat) ^ ilog2 ?n < 2 ^ 52" by simp
  then have "ilog2 ?n < 52"
    by (simp only: power_strict_increasing_iff one_less_numeral_iff semiring_norm)
  with True assms show ?thesis by (simp add: exponent_def)
next
  case False
  with assms show ?thesis by (simp add: exponent_def)
qed

text \<open>Rounding never crosses a whole number: the result stays between the floor of
  the exact value and the next integer.\<close>

lemma round_double_bounds:
  assumes "0 \<le> x" and "x < 2 ^ 52"
  shows "of_int \<lfloor>x\<rfloor> \<le> round_double x \<and> round_double x \<le> of_int \<lfloor>x\<rfloor> + 1"
proof (cases "x = 0")
  case True
  then show ?thesis by (simp add: round_double_def)
next
  case False
  with assms have pos: "0 < x" by simp
  define k where "k = max (exponent x) (- 1022) - 52"
  define j where "j = nat (- k)"
  have "k < 0" using exponent_less [OF pos assms(2)] by (simp add: k_def)
  then have q: "pow2 k = 1 / 2 ^ j" by (simp add: pow2_neg j_def)
  have rd: "round_double x = of_int (round_half_even (x * 2 ^ j)) / 2 ^ j"
    using False by (simp add: round_double_def k_def [symmetric] q)
  have "of_int (\<lfloor>x\<rfloor> * 2 ^ j) \<le> x * 2 ^ j"
    by simp
  then have lo: "\<lfloor>x\<rfloor> * 2 ^ j \<le> round_half_even (x * 2 ^ j)"
    by (rule round_half_even_lower)
  have "x < of_int (\<lfloor>x\<rfloor> + 1)" using floor_correct [of x] by blast
  then have "x \<le> of_int (\<lfloor>x\<rfloor> + 1)" by (rule less_imp_le)
  then have "x * 2 ^ j \<le> of_int ((\<lfloor>x\<rfloor> + 1) * 2 ^ j)"
    by (simp del: of_int_add)
  then have hi: "round_half_even (x * 2 ^ j) \<le> (\<lfloor>x\<rfloor> + 1) * 2 ^ j"
    by (rule round_half_even_upper)
  from lo have "rat_of_int (\<lfloor>x\<rfloor> * 2 ^ j) \<le> of_int (round_half_even (x * 2 ^ j))"
    by (simp only: of_int_le_iff)
  then have 1: "of_int \<lfloor>x\<rfloor> \<le> round_double x"
    by (simp add: rd pos_le_divide_eq)
  from hi have "rat_of_int (round_half_even (x * 2 ^ j)) \<le> of_int ((\<lfloor>x\<rfloor> + 1) * 2 ^ j)"
    by (simp only: of_int_le_iff)
  then have 2: "round_double x \<le> of_int \<lfloor>x\<rfloor> + 1"
    by (simp add: rd pos_divide_le_eq)
  from 1 2 show ?thesis by simp
qed

lemma py_int_round_double:
  assumes "0 \<le> x" and "x < 2 ^ 52"
  shows "py_int (round_double x) = \<lfloor>x\<rfloor> \<or> py_int (round_double x) = \<lfloor>x\<rfloor> + 1"
proof -
  from round_double_bounds [OF assms]
  have b: "of_int \<lfloor>x\<rfloor> \<le> round_double x" "round_double x \<le> of_int \<lfloor>x\<rfloor> + 1"
    by simp_all
  from assms(1) have "0 \<le> \<lfloor>x\<rfloor>" by simp
  then have "(0::rat) \<le> of_int \<lfloor>x\<rfloor>" by simp
  with b(1) have nn: "0 \<le> round_double x" by linarith
  from b(1) have "\<lfloor>x\<rfloor> \<le> \<lfloor>round_double x\<rfloor>" by (simp add: le_floor_iff)
  moreover from b(2) have "\<lfloor>round_double x\<rfloor> \<le> \<lfloor>x\<rfloor> + 1"
    by (metis floor_mono floor_of_int of_int_1 of_int_add)
  ultimately show ?thesis using nn by (auto simp: py_int_def)
qed

text \<open>A value that is a whole number of units in the last place is not changed.\<close>

lemma round_double_exact:
  assumes "x \<noteq> 0" and "x / pow2 (max (exponent x) (- 1022) - 52) = of_int m"
  shows "round_double x = x"
proof -
  let ?q = "pow2 (max (exponent x) (- 1022) - 52)"
  have q: "?q \<noteq> 0"
    using pow2_pos [of "max (exponent x) (- 1022) - 52"] by simp
  have "round_double x = of_int (round_half_even (x / ?q)) * ?q"
    using assms(1) by (simp add: round_double_def Let_def)
  also have "\<dots> = of_int m * ?q"
    by (simp only: assms(2) round_half_even_int)
  also have "\<dots> = x / ?q * ?q"
    by (simp only: assms(2))
  also have "\<dots> = x"
    using q by simp
  finally show ?thesis .
qed

text \<open>\<open>1000.0 - 3.5\<close> is exact.\<close>

lemma float_sub_example: "float_sub 1000 (7 / 2) = 1993 / 2"
proof -
  have "\<lfloor>1993 / 2 :: rat\<rfloor> = 996" by (simp add: floor_eq_iff)
  moreover have "ilog2 996 = 9" by (simp add: ilog2.simps)
  ultimately have e: "exponent (1993 / 2) = 9"
    by (simp add: exponent_def)
  have "(1993 / 2 :: rat) / pow2 (max (exponent (1993 / 2)) (- 1022) - 52) = of_int (1993 * 2 ^ 42)"
    by (simp add: e pow2_def)
  then have "round_double (1993 / 2) = 1993 / 2"
    by (rule round_double_exact [rotated]) simp
  then show ?thesis by (simp add: float_sub_def)
qed

text \<open>\<open>1700000000.0 - 2^-27\<close> is not: the exact difference lies within half a unit in
  the last place (\<open>2^-22\<close>) of \<open>1700000000.0\<close> and is rounded up to it.\<close>

lemma float_sub_rounds_up: "float_sub 1700000000 (1 / 134217728) = 1700000000"
proof -
  define x :: rat where "x = 228170137599999999 / 134217728"
  have x: "(1700000000 :: rat) - 1 / 134217728 = x"
    by (simp add: x_def)
  have f: "\<lfloor>x\<rfloor> = 1699999999"
    by (simp add: x_def floor_eq_iff)
  have l: "ilog2 1699999999 = 30"
    by (simp add: ilog2.simps)
  have a: "\<bar>x\<bar> = x" "1 \<le> x" "x \<noteq> 0"
    by (simp_all add: x_def)
  have e: "exponent x = 30"
    by (simp add: exponent_def a f l)
  have q: "pow2 (max (exponent x) (- 1022) - 52) = 1 / 4194304"
    by (simp add: e pow2_def)
  have rd: "round_double x = of_int (round_half_even (x * 4194304)) / 4194304"
    using a(3) by (simp add: round_double_def q)
  have m: "x * 4194304 = 228170137599999999 / 32"
    by (simp add: x_def)
  have "\<lfloor>228170137599999999 / 32 :: rat\<rfloor> = 7130316799999999"
    by (simp add: floor_eq_iff)
  then have r: "round_half_even (228170137599999999 / 32) = 7130316800000000"
    by (simp add: round_half_even_def)
  have "round_double x = 1700000000"
    by (simp add: rd m r)
  then show ?thesis
    by (simp only: float_sub_def x)
qed

lemma example_facts:
  "isValid example_timer"
  "PersistentID (userInfo example_timer) = Some (- 1)"
  "playerState (example_env\<lparr>currentTrack := t\<rparr>) = ITUNES_PLAYER_STATE_PLAYING"
  "playerState example_env = ITUNES_PLAYER_STATE_PLAYING"
  by (simp_all add: isValid_def example_timer_def example_userinfo_def example_env_def)

section \<open>The fire handler\<close>

text \<open>
  Claim C1. When the timer that fires is valid and the player reports that it is
  playing, the handler compares the live track's persistent id with the snapshot's
  sign-corrected id. A live id that is present and differs: a warning, no scrobble. A
  live id that is present and equal: one scrobble, every field from the live track, the
  duration as \<open>int(duration)\<close>. No live id: a warning and one scrobble, every field
  from the snapshot the timer carries. The snapshot's id is present in every timer the
  program creates, and the live track reports a duration.
\<close>

theorem fire_case_analysis:
  assumes "isValid tm" and "playerState e = ITUNES_PLAYER_STATE_PLAYING"
    and "PersistentID (userInfo tm) = Some pid"
  shows "(persistentID (currentTrack e) = Some a \<and> a \<noteq> expected_persistent_id pid \<longrightarrow>
            scrobbleTimerFired e tm w = (None, emit (Log WARNING different_track_warning) w))
       \<and> (persistentID (currentTrack e) = Some (expected_persistent_id pid)
            \<and> duration (currentTrack e) = Some d \<longrightarrow>
            snd (scrobbleTimerFired e tm w) =
              emit (Scrobble
                \<lparr>kw_artist = artist (currentTrack e), kw_title = name (currentTrack e),
                 kw_album = album (currentTrack e), kw_album_artist = albumArtist (currentTrack e),
                 kw_track_number = trackNumber (currentTrack e), kw_duration = Some (py_int d),
                 kw_timestamp = Some (py_int (float_sub (time_now e) (playerPosition e)))\<rparr>) w)
       \<and> (persistentID (currentTrack e) = None \<longrightarrow>
            snd (scrobbleTimerFired e tm w) =
              emit (Scrobble
                \<lparr>kw_artist = Artist (userInfo tm), kw_title = Name (userInfo tm),
                 kw_album = Album (userInfo tm), kw_album_artist = Album_Artist (userInfo tm),
                 kw_track_number = Track_Number (userInfo tm),
                 kw_duration = duration_or_None (userInfo tm),
                 kw_timestamp = Some (py_int (float_sub (time_now e) (playerPosition e)))\<rparr>)
               (emit (Log WARNING no_live_id_warning) w))"
  using assms
  by (simp add: scrobbleTimerFired_def submit_def current_track_kwargs_def snapshot_kwargs_def Let_def)

theorem fire_case_analysis_witness:
  "snd (scrobbleTimerFired example_env example_timer initial) =
     emit (Scrobble
       \<lparr>kw_artist = Some ''Nina Simone'', kw_title = Some ''Sinnerman (Live)'',
        kw_album = Some ''Pastel Blues'', kw_album_artist = Some ''Nina Simone'',
        kw_track_number = Some 9, kw_duration = Some 200, kw_timestamp = Some 996\<rparr>) initial
   \<and> scrobbleTimerFired
         (example_env\<lparr>currentTrack := example_track\<lparr>persistentID := Some ''00000000000000AB''\<rparr>\<rparr>)
         example_timer initial =
       (None, emit (Log WARNING different_track_warning) initial)
   \<and> snd (scrobbleTimerFired
         (example_env\<lparr>currentTrack := example_track\<lparr>persistentID := None\<rparr>\<rparr>)
         example_timer initial) =
     emit (Scrobble
       \<lparr>kw_artist = Some ''Nina Simone'', kw_title = Some ''Sinnerman'',
        kw_album = Some ''Pastel Blues'', kw_album_artist = Some ''Nina Simone'',
        kw_track_number = Some 9, kw_duration = Some 200, kw_timestamp = Some 996\<rparr>)
      (emit (Log WARNING no_live_id_warning) initial)"
proof -
  note same = fire_case_analysis [OF example_facts(1) example_facts(4) example_facts(2),
      where d = "401 / 2" and w = initial]
  note other = fire_case_analysis [OF example_facts(1) example_facts(3) example_facts(2),
      where t1 = "example_track\<lparr>persistentID := Some ''00000000000000AB''\<rparr>"
      and a = "''00000000000000AB''" and w = initial]
  note absent = fire_case_analysis [OF example_facts(1) example_facts(3) example_facts(2),
      where t1 = "example_track\<lparr>persistentID := None\<rparr>" and w = initial]
  have t: "py_int (float_sub (time_now example_env) (playerPosition example_env)) = 996"
    using py_int_examples(1) by (simp add: example_env_def float_sub_example)
  have s: "duration_or_None (userInfo example_timer) = Some 200"
    by (simp add: duration_or_None_def total_time_def example_timer_def example_userinfo_def)
  have 1: "snd (scrobbleTimerFired example_env example_timer initial) =
     emit (Scrobble
       \<lparr>kw_artist = Some ''Nina Simone'', kw_title = Some ''Sinnerman (Live)'',
        kw_album = Some ''Pastel Blues'', kw_album_artist = Some ''Nina Simone'',
        kw_track_number = Some 9, kw_duration = Some 200, kw_timestamp = Some 996\<rparr>) initial"
    using same t py_int_examples(2)
    by (simp add: expected_minus_one example_env_def example_track_def)
  have 2: "scrobbleTimerFired
         (example_env\<lparr>currentTrack := example_track\<lparr>persistentID := Some ''00000000000000AB''\<rparr>\<rparr>)
         example_timer initial =
       (None, emit (Log WARNING different_track_warning) initial)"
    using other by (simp add: expected_minus_one)
  have 3: "snd (scrobbleTimerFired
         (example_env\<lparr>currentTrack := example_track\<lparr>persistentID := None\<rparr>\<rparr>)
         example_timer initial) =
     emit (Scrobble
       \<lparr>kw_artist = Some ''Nina Simone'', kw_title = Some ''Sinnerman'',
        kw_album = Some ''Pastel Blues'', kw_album_artist = Some ''Nina Simone'',
        kw_track_number = Some 9, kw_duration = Some 200, kw_timestamp = Some 996\<rparr>)
      (emit (Log WARNING no_live_id_warning) initial)"
    using absent t s
    by (simp add: example_env_def example_timer_def example_userinfo_def)
  from 1 2 3 show ?thesis by simp
qed

section \<open>The scheduling decision\<close>

text \<open>
  Claim C2. The delay follows the event's \<open>Total Time\<close>: a length of zero is resolved
  from the player after the sleep (200 seconds give a delay of 100, no answer gives no
  timer); a non-zero length below 30 seconds gives no timer; any other length gives
  \<open>min(ceil(length / 2), 240)\<close>, so 500000 ms give 240, 40000 ms give 20 and 10000 ms
  give no timer.
\<close>

theorem decide_rule:
  "decide 0 (Some 200) = ScheduleAfter 100 \<and> decide 0 None = Abandon
   \<and> decide 500000 r = ScheduleAfter 240 \<and> decide 40000 r = ScheduleAfter 20
   \<and> decide 10000 r = Abandon
   \<and> (d \<noteq> 0 \<longrightarrow> decide 0 (Some d) = ScheduleAfter (min \<lceil>d / 2\<rceil> 240))
   \<and> (ms \<noteq> 0 \<and> ms < 30000 \<longrightarrow> decide ms r = Abandon)
   \<and> (30000 \<le> ms \<longrightarrow> decide ms r = ScheduleAfter (min \<lceil>rat_of_int ms / 1000 / 2\<rceil> 240))"
  by (simp add: policy_defs)

theorem decide_rule_witness:
  "decide 0 (Some (401 / 2)) = ScheduleAfter 101 \<and> decide 29999 None = Abandon
   \<and> decide 40500 (Some 7) = ScheduleAfter 21 \<and> decide 3600000 None = ScheduleAfter 240"
proof -
  have c: "\<lceil>(401 / 2 :: rat) / 2\<rceil> = 101" "\<lceil>rat_of_int 40500 / 1000 / 2\<rceil> = 21"
    "\<lceil>rat_of_int 3600000 / 1000 / 2\<rceil> = 1800"
    by (simp_all add: ceiling_eq_iff)
  from decide_rule [of None "401 / 2" 29999] decide_rule [of "Some 7" 1 40500]
    decide_rule [of None 1 3600000] c
  show ?thesis by simp
qed

section \<open>Events without artist or title\<close>

text \<open>
  Claim C6. A \<open>Playing\<close> event whose artist or title is missing or empty changes
  nothing: the handler returns normally with the state it was given, so no Now-Playing
  update is sent, no timer is created or cancelled, and nothing above debug level is
  logged.
\<close>

theorem playing_without_artist_or_title:
  assumes "Player_State u = Some ''Playing''"
    and "\<not> truthy (Artist u) \<or> \<not> truthy (Name u)"
  shows "receivedNotification e u w = (None, w)"
  using assms
  by (auto simp: receivedNotification_def update_now_playing_def now_playing_kwargs_def)

theorem playing_without_artist_or_title_witness:
  "receivedNotification example_env (example_userinfo\<lparr>Artist := Some []\<rparr>) initial = (None, initial)
   \<and> receivedNotification example_env (example_userinfo\<lparr>Name := None\<rparr>) initial = (None, initial)"
  using playing_without_artist_or_title [of "example_userinfo\<lparr>Artist := Some []\<rparr>" example_env initial]
    playing_without_artist_or_title [of "example_userinfo\<lparr>Name := None\<rparr>" example_env initial]
  by (simp add: example_userinfo_def)

section \<open>Short tracks resolved by the fallback\<close>

lemma example_fire:
  "snd (scrobbleTimerFired example_env example_timer initial) =
     emit (Scrobble
       \<lparr>kw_artist = Some ''Nina Simone'', kw_title = Some ''Sinnerman (Live)'',
        kw_album = Some ''Pastel Blues'', kw_album_artist = Some ''Nina Simone'',
        kw_track_number = Some 9, kw_duration = Some 200, kw_timestamp = Some 996\<rparr>) initial"
  using py_int_examples
  by (simp add: scrobbleTimerFired_def submit_def current_track_kwargs_def Let_def
      example_facts expected_minus_one example_env_def example_track_def float_sub_example)

lemma length_invalidate [simp]: "length (invalidate h ts) = length ts"
  by (simp add: invalidate_def)

text \<open>
  Claim C5 (the code at the failing input). An event with \<open>Total Time = 0\<close> whose
  fallback query answers 10 seconds is not abandoned: the minimum length is only checked
  on the branch for a non-zero event length, so a timer is created with a delay of
  \<open>ceil(10 / 2) = 5\<close> seconds.
\<close>

theorem short_fallback_length_schedules:
  "decide 0 (Some 10) = ScheduleAfter 5
   \<and> snd (receivedNotification
        (example_env\<lparr>currentTrack := example_track\<lparr>duration := Some 10\<rparr>\<rparr>)
        (example_userinfo\<lparr>Total_Time := Some 0\<rparr>) initial) =
     \<lparr>scrobble_timer = Some 0,
      timers = [\<lparr>timeInterval = 5, userInfo = example_userinfo\<lparr>Total_Time := Some 0\<rparr>,
                 status = Scheduled\<rparr>],
      trace = [UpdateNowPlaying (now_playing_kwargs (example_userinfo\<lparr>Total_Time := Some 0\<rparr>)),
               Sleep 5]\<rparr>"
proof -
  have d: "decide 0 (Some 10) = ScheduleAfter 5"
    by (simp add: policy_defs)
  show ?thesis
    by (simp add: d receivedNotification_def update_now_playing_def now_playing_kwargs_def
        prepare_to_scrobble_def cancel_scrobble_timer_def scheduledTimer_def emit_def
        total_time_def duration_or_None_def initial_def example_env_def example_userinfo_def
        example_track_def Let_def)
qed

section \<open>The timestamp of a scrobble\<close>

text \<open>
  Claim C8 as stated fails: a fire at \<open>T = 1000\<close> with position \<open>P = 3.5\<close> submits the
  timestamp 996, while \<open>T - floor(P)\<close> is 997.
\<close>

theorem timestamp_counterexample:
  "time_now example_env = 1000 \<and> playerPosition example_env = 7 / 2
   \<and> new_actions initial (snd (scrobbleTimerFired example_env example_timer initial)) =
       [Scrobble
         \<lparr>kw_artist = Some ''Nina Simone'', kw_title = Some ''Sinnerman (Live)'',
          kw_album = Some ''Pastel Blues'', kw_album_artist = Some ''Nina Simone'',
          kw_track_number = Some 9, kw_duration = Some 200, kw_timestamp = Some 996\<rparr>]
   \<and> time_now example_env - of_int \<lfloor>playerPosition example_env\<rfloor> = 997"
proof -
  have f: "\<lfloor>7 / 2 :: rat\<rfloor> = 3" by (simp add: floor_eq_iff)
  have n: "new_actions initial (snd (scrobbleTimerFired example_env example_timer initial)) =
       [Scrobble
         \<lparr>kw_artist = Some ''Nina Simone'', kw_title = Some ''Sinnerman (Live)'',
          kw_album = Some ''Pastel Blues'', kw_album_artist = Some ''Nina Simone'',
          kw_track_number = Some 9, kw_duration = Some 200, kw_timestamp = Some 996\<rparr>]"
    by (simp add: example_fire new_actions_def emit_def)
  from f n show ?thesis
    by (simp add: example_env_def)
qed

text \<open>
  Claim C8, amended. Every scrobble submitted by a timer fire at time \<open>T\<close> with playback
  position \<open>P\<close> carries the timestamp \<open>int(T - P)\<close>, where \<open>-\<close> is the subtraction of
  doubles and \<open>int\<close> truncates towards zero. For \<open>0 \<le> T - P < 2^52\<close> that is
  \<open>floor(T - P)\<close> or \<open>floor(T - P) + 1\<close>, and it is \<open>floor(T - P)\<close> whenever \<open>P \<le> T\<close> and
  the subtraction is exact.
\<close>

theorem scrobble_timestamp:
  assumes "Scrobble kw \<in> set (new_actions w (snd (scrobbleTimerFired e tm w)))"
  shows "kw_timestamp kw = Some (py_int (float_sub (time_now e) (playerPosition e)))
       \<and> (playerPosition e \<le> time_now e \<and> time_now e - playerPosition e < 2 ^ 52 \<longrightarrow>
            kw_timestamp kw = Some \<lfloor>time_now e - playerPosition e\<rfloor>
            \<or> kw_timestamp kw = Some (\<lfloor>time_now e - playerPosition e\<rfloor> + 1))
       \<and> (playerPosition e \<le> time_now e
            \<and> float_sub (time_now e) (playerPosition e) = time_now e - playerPosition e \<longrightarrow>
            kw_timestamp kw = Some \<lfloor>time_now e - playerPosition e\<rfloor>)"
proof -
  let ?x = "time_now e - playerPosition e"
  from assms
  have t: "kw_timestamp kw = Some (py_int (float_sub (time_now e) (playerPosition e)))"
    by (auto simp: scrobbleTimerFired_def submit_def new_actions_def emit_def Let_def
        split: if_splits option.splits)
  have b: "playerPosition e \<le> time_now e \<and> ?x < 2 ^ 52 \<longrightarrow>
      kw_timestamp kw = Some \<lfloor>?x\<rfloor> \<or> kw_timestamp kw = Some (\<lfloor>?x\<rfloor> + 1)"
  proof
    assume "playerPosition e \<le> time_now e \<and> ?x < 2 ^ 52"
    then have "0 \<le> ?x" and "?x < 2 ^ 52" by simp_all
    from py_int_round_double [OF this]
    show "kw_timestamp kw = Some \<lfloor>?x\<rfloor> \<or> kw_timestamp kw = Some (\<lfloor>?x\<rfloor> + 1)"
      by (simp add: t float_sub_def)
  qed
  have x: "playerPosition e \<le> time_now e \<and> float_sub (time_now e) (playerPosition e) = ?x \<longrightarrow>
      kw_timestamp kw = Some \<lfloor>?x\<rfloor>"
    by (simp add: t py_int_def)
  from t b x show ?thesis by blast
qed

theorem scrobble_timestamp_witness:
  "kw_timestamp
     \<lparr>kw_artist = Some ''Nina Simone'', kw_title = Some ''Sinnerman (Live)'',
      kw_album = Some ''Pastel Blues'', kw_album_artist = Some ''Nina Simone'',
      kw_track_number = Some 9, kw_duration = Some 200, kw_timestamp = Some 996\<rparr> =
   Some \<lfloor>time_now example_env - playerPosition example_env\<rfloor>
   \<and> \<lfloor>time_now example_env - playerPosition example_env\<rfloor> = 996
   \<and> kw_timestamp
     \<lparr>kw_artist = Some ''Nina Simone'', kw_title = Some ''Sinnerman (Live)'',
      kw_album = Some ''Pastel Blues'', kw_album_artist = Some ''Nina Simone'',
      kw_track_number = Some 9, kw_duration = Some 200, kw_timestamp = Some 1700000000\<rparr> =
   Some (py_int (float_sub 1700000000 (1 / 134217728)))
   \<and> \<lfloor>1700000000 - 1 / 134217728 :: rat\<rfloor> = 1699999999"
proof -
  let ?e = "example_env\<lparr>time_now := 1700000000, playerPosition := 1 / 134217728\<rparr>"
  have m: "Scrobble
     \<lparr>kw_artist = Some ''Nina Simone'', kw_title = Some ''Sinnerman (Live)'',
      kw_album = Some ''Pastel Blues'', kw_album_artist = Some ''Nina Simone'',
      kw_track_number = Some 9, kw_duration = Some 200, kw_timestamp = Some 996\<rparr>
     \<in> set (new_actions initial (snd (scrobbleTimerFired example_env example_timer initial)))"
    by (simp add: example_fire new_actions_def emit_def)
  have le: "playerPosition example_env \<le> time_now example_env"
    and ex: "float_sub (time_now example_env) (playerPosition example_env) =
      time_now example_env - playerPosition example_env"
    by (simp_all add: example_env_def float_sub_example)
  have fl: "\<lfloor>time_now example_env - playerPosition example_env\<rfloor> = 996"
    by (simp add: example_env_def floor_eq_iff)
  from scrobble_timestamp [OF m] le ex
  have 1: "kw_timestamp
     \<lparr>kw_artist = Some ''Nina Simone'', kw_title = Some ''Sinnerman (Live)'',
      kw_album = Some ''Pastel Blues'', kw_album_artist = Some ''Nina Simone'',
      kw_track_number = Some 9, kw_duration = Some 200, kw_timestamp = Some 996\<rparr> =
     Some \<lfloor>time_now example_env - playerPosition example_env\<rfloor>"
    by blast
  have p: "py_int 1700000000 = 1700000000"
    by (simp add: py_int_def)
  have v: "playerState ?e = ITUNES_PLAYER_STATE_PLAYING"
    by (simp add: example_env_def)
  have "snd (scrobbleTimerFired ?e example_timer initial) =
     emit (Scrobble
       \<lparr>kw_artist = Some ''Nina Simone'', kw_title = Some ''Sinnerman (Live)'',
        kw_album = Some ''Pastel Blues'', kw_album_artist = Some ''Nina Simone'',
        kw_track_number = Some 9, kw_duration = Some 200, kw_timestamp = Some 1700000000\<rparr>) initial"
    using py_int_examples(2) p
    by (simp add: scrobbleTimerFired_def submit_def current_track_kwargs_def Let_def
        example_facts v expected_minus_one example_env_def example_track_def float_sub_rounds_up)
  then have m2: "Scrobble
     \<lparr>kw_artist = Some ''Nina Simone'', kw_title = Some ''Sinnerman (Live)'',
      kw_album = Some ''Pastel Blues'', kw_album_artist = Some ''Nina Simone'',
      kw_track_number = Some 9, kw_duration = Some 200, kw_timestamp = Some 1700000000\<rparr>
     \<in> set (new_actions initial (snd (scrobbleTimerFired ?e example_timer initial)))"
    by (simp add: new_actions_def emit_def)
  from scrobble_timestamp [OF m2]
  have "kw_timestamp
     \<lparr>kw_artist = Some ''Nina Simone'', kw_title = Some ''Sinnerman (Live)'',
      kw_album = Some ''Pastel Blues'', kw_album_artist = Some ''Nina Simone'',
      kw_track_number = Some 9, kw_duration = Some 200, kw_timestamp = Some 1700000000\<rparr> =
     Some (py_int (float_sub (time_now ?e) (playerPosition ?e)))"
    by blast
  then have 2: "kw_timestamp
     \<lparr>kw_artist = Some ''Nina Simone'', kw_title = Some ''Sinnerman (Live)'',
      kw_album = Some ''Pastel Blues'', kw_album_artist = Some ''Nina Simone'',
      kw_track_number = Some 9, kw_duration = Some 200, kw_timestamp = Some 1700000000\<rparr> =
     Some (py_int (float_sub 1700000000 (1 / 134217728)))"
    by (simp add: example_env_def)
  have 3: "\<lfloor>1700000000 - 1 / 134217728 :: rat\<rfloor> = 1699999999"
    by (simp add: floor_eq_iff)
  from 1 fl 2 3 show ?thesis by blast
qed

section \<open>Events without a persistent id\<close>

text \<open>
  Claim C4 as stated fails: for an event with artist and title, a length of 200 seconds
  (for which the duration policy answers a delay of 100) and no \<open>PersistentID\<close>, the
  handler sends the Now-Playing update, logs the warning and creates no timer.
\<close>

theorem no_persistent_id_counterexample:
  "truthy (Artist (example_userinfo\<lparr>PersistentID := None\<rparr>))
   \<and> truthy (Name (example_userinfo\<lparr>PersistentID := None\<rparr>))
   \<and> decide (total_time (example_userinfo\<lparr>PersistentID := None\<rparr>))
        (duration (currentTrack example_env)) = ScheduleAfter 100
   \<and> receivedNotification example_env (example_userinfo\<lparr>PersistentID := None\<rparr>) initial =
       (None,
        \<lparr>scrobble_timer = None, timers = [],
         trace = [UpdateNowPlaying (now_playing_kwargs (example_userinfo\<lparr>PersistentID := None\<rparr>)),
                  Log WARNING no_id_warning]\<rparr>)"
proof -
  have d: "decide 200000 r = ScheduleAfter 100" for r
    by (simp add: policy_defs)
  show ?thesis
    by (simp add: d receivedNotification_def update_now_playing_def now_playing_kwargs_def
        prepare_to_scrobble_def cancel_scrobble_timer_def emit_def
        total_time_def duration_or_None_def initial_def example_env_def example_userinfo_def
        Let_def)
qed

text \<open>
  Claim C4, amended. For a \<open>Playing\<close> event whose metadata has non-empty artist and
  title but lacks a persistent id, no scheduling is attempted: the Now-Playing update is
  sent and, when that call returns, the outstanding timer (if any) is cancelled, a
  warning is logged and the handler returns. No timer is created, whatever the duration
  policy would answer, so no timer exists that could later fire for the event.
\<close>

theorem playing_without_persistent_id:
  assumes "Player_State u = Some ''Playing''" and "truthy (Artist u)" and "truthy (Name u)"
    and "PersistentID u = None"
  shows "receivedNotification e u w =
           (if lastfm_raises e
            then (Some RemoteError, emit (UpdateNowPlaying (now_playing_kwargs u)) w)
            else (None, emit (Log WARNING no_id_warning)
                    (cancel_scrobble_timer (emit (UpdateNowPlaying (now_playing_kwargs u)) w))))
       \<and> length (timers (snd (receivedNotification e u w))) = length (timers w)
       \<and> (\<not> lastfm_raises e \<longrightarrow>
            scrobble_timer (snd (receivedNotification e u w)) = None
            \<and> timers (snd (receivedNotification e u w)) = timers (cancel_scrobble_timer w))"
  using assms
  by (auto simp: receivedNotification_def update_now_playing_def now_playing_kwargs_def
      prepare_to_scrobble_def cancel_scrobble_timer_def emit_def Let_def
      split: option.splits)

theorem playing_without_persistent_id_witness:
  "timers (snd (receivedNotification example_env (example_userinfo\<lparr>PersistentID := None\<rparr>)
      (scheduledTimer 100 example_userinfo initial))) =
     [example_timer\<lparr>status := Invalidated\<rparr>]
   \<and> scrobble_timer (snd (receivedNotification example_env
      (example_userinfo\<lparr>PersistentID := None\<rparr>)
      (scheduledTimer 100 example_userinfo initial))) = None"
proof -
  have c: "timers (cancel_scrobble_timer (scheduledTimer 100 example_userinfo initial)) =
      [example_timer\<lparr>status := Invalidated\<rparr>]"
    by (simp add: cancel_scrobble_timer_def scheduledTimer_def initial_def invalidate_def
        example_timer_def)
  have r: "\<not> lastfm_raises example_env"
    by (simp add: example_env_def)
  have h: "Player_State (example_userinfo\<lparr>PersistentID := None\<rparr>) = Some ''Playing''"
    "truthy (Artist (example_userinfo\<lparr>PersistentID := None\<rparr>))"
    "truthy (Name (example_userinfo\<lparr>PersistentID := None\<rparr>))"
    "PersistentID (example_userinfo\<lparr>PersistentID := None\<rparr>) = None"
    by (simp_all add: example_userinfo_def)
  from playing_without_persistent_id [OF h, of example_env
      "scheduledTimer 100 example_userinfo initial"] r
  have "scrobble_timer (snd (receivedNotification example_env
          (example_userinfo\<lparr>PersistentID := None\<rparr>)
          (scheduledTimer 100 example_userinfo initial))) = None
      \<and> timers (snd (receivedNotification example_env
          (example_userinfo\<lparr>PersistentID := None\<rparr>)
          (scheduledTimer 100 example_userinfo initial))) =
        timers (cancel_scrobble_timer (scheduledTimer 100 example_userinfo initial))"
    by blast
  then show ?thesis
    by (simp only: c)
qed

section \<open>Cancelling the outstanding timer\<close>

lemma timers_emit [simp]: "timers (emit a w) = timers w"
  and scrobble_timer_emit [simp]: "scrobble_timer (emit a w) = scrobble_timer w"
  and trace_emit [simp]: "trace (emit a w) = trace w @ [a]"
  by (simp_all add: emit_def)

lemma cancel_emit: "cancel_scrobble_timer (emit a w) = emit a (cancel_scrobble_timer w)"
  by (simp add: cancel_scrobble_timer_def emit_def split: option.splits)

lemma invalidate_nth:
  "i < length ts \<Longrightarrow>
   invalidate h ts ! i =
     (if i = h \<and> status (ts ! h) = Scheduled then (ts ! h)\<lparr>status := Invalidated\<rparr> else ts ! i)"
  by (simp add: invalidate_def nth_list_update)

lemma invalidate_not_valid: "h < length ts \<Longrightarrow> \<not> isValid (invalidate h ts ! h)"
  by (simp add: invalidate_nth isValid_def)

lemma timers_cancel:
  "timers (cancel_scrobble_timer w) =
     (case scrobble_timer w of None \<Rightarrow> timers w | Some h \<Rightarrow> invalidate h (timers w))"
  by (simp add: cancel_scrobble_timer_def split: option.splits)

lemma scrobble_timer_cancel [simp]: "scrobble_timer (cancel_scrobble_timer w) = None"
  by (simp add: cancel_scrobble_timer_def split: option.splits)

lemma trace_cancel [simp]: "trace (cancel_scrobble_timer w) = trace w"
  by (simp add: cancel_scrobble_timer_def split: option.splits)

text \<open>What \<open>prepare_to_scrobble\<close> does to the timers: cancel, then at most one new timer.\<close>

lemma timers_prepare:
  "timers (prepare_to_scrobble e u w) =
     timers (cancel_scrobble_timer w) @
     (if PersistentID u = None then []
      else case decide (total_time u) (duration (currentTrack e)) of
             Abandon \<Rightarrow> []
           | ScheduleAfter t \<Rightarrow> [\<lparr>timeInterval = t, userInfo = u, status = Scheduled\<rparr>])"
  by (simp add: prepare_to_scrobble_def scheduledTimer_def Let_def split: decision.splits)

lemma scrobble_timer_prepare:
  "scrobble_timer (prepare_to_scrobble e u w) =
     (if PersistentID u = None then None
      else case decide (total_time u) (duration (currentTrack e)) of
             Abandon \<Rightarrow> None
           | ScheduleAfter t \<Rightarrow> Some (length (timers w)))"
  by (simp add: prepare_to_scrobble_def scheduledTimer_def Let_def timers_cancel
      split: decision.splits option.splits)

lemma length_timers_cancel [simp]: "length (timers (cancel_scrobble_timer w)) = length (timers w)"
  by (simp add: timers_cancel split: option.splits)

text \<open>
  Claim C9 as stated fails: with a timer outstanding for one track, a \<open>Playing\<close> event
  without an artist leaves that timer live.
\<close>

theorem stale_timer_counterexample:
  "live_handles (scheduledTimer 100 example_userinfo initial) = [0]
   \<and> scrobble_timer (scheduledTimer 100 example_userinfo initial) = Some 0
   \<and> live_handles (step (scheduledTimer 100 example_userinfo initial)
        (Notification example_env (example_userinfo\<lparr>Artist := None\<rparr>))) = [0]"
  by (simp add: live_handles_def scheduledTimer_def initial_def isValid_def
      receivedNotification_def update_now_playing_def now_playing_kwargs_def
      example_userinfo_def)

text \<open>
  Claim C9, amended. Whenever a timer is outstanding, a \<open>Paused\<close> or \<open>Stopped\<close> event
  cancels it and does nothing else. A \<open>Playing\<close> event with non-empty artist and title
  cancels it after the Now-Playing update has returned and before any new timer is
  created. A \<open>Playing\<close> event whose artist or title is missing leaves the state, and so
  the outstanding timer, untouched.
\<close>

theorem events_cancel_outstanding_timer:
  assumes "scrobble_timer w = Some h" and "h < length (timers w)" and "isValid (timers w ! h)"
  shows "(Player_State u = Some ''Paused'' \<or> Player_State u = Some ''Stopped'' \<longrightarrow>
            receivedNotification e u w = (None, cancel_scrobble_timer w)
            \<and> \<not> isValid (timers (snd (receivedNotification e u w)) ! h))
       \<and> (Player_State u = Some ''Playing'' \<and> truthy (Artist u) \<and> truthy (Name u)
            \<and> \<not> lastfm_raises e \<longrightarrow>
            receivedNotification e u w =
              (None, prepare_to_scrobble e u (emit (UpdateNowPlaying (now_playing_kwargs u)) w))
            \<and> take (length (timers w)) (timers (snd (receivedNotification e u w))) =
                invalidate h (timers w)
            \<and> \<not> isValid (timers (snd (receivedNotification e u w)) ! h))
       \<and> (Player_State u = Some ''Playing'' \<and> (\<not> truthy (Artist u) \<or> \<not> truthy (Name u)) \<longrightarrow>
            receivedNotification e u w = (None, w)
            \<and> isValid (timers (snd (receivedNotification e u w)) ! h))"
proof (intro conjI impI)
  assume "Player_State u = Some ''Paused'' \<or> Player_State u = Some ''Stopped''"
  then show p: "receivedNotification e u w = (None, cancel_scrobble_timer w)"
    by (auto simp: receivedNotification_def)
  from assms show "\<not> isValid (timers (snd (receivedNotification e u w)) ! h)"
    by (simp add: p timers_cancel invalidate_not_valid)
next
  assume a: "Player_State u = Some ''Playing'' \<and> truthy (Artist u) \<and> truthy (Name u)
      \<and> \<not> lastfm_raises e"
  let ?w = "emit (UpdateNowPlaying (now_playing_kwargs u)) w"
  from a show r: "receivedNotification e u w = (None, prepare_to_scrobble e u ?w)"
    by (simp add: receivedNotification_def update_now_playing_def now_playing_kwargs_def)
  have c: "timers (cancel_scrobble_timer ?w) = invalidate h (timers w)"
    using assms by (simp add: timers_cancel)
  from c show "take (length (timers w)) (timers (snd (receivedNotification e u w))) =
      invalidate h (timers w)"
    by (simp add: r timers_prepare)
  from c assms show "\<not> isValid (timers (snd (receivedNotification e u w)) ! h)"
    by (simp add: r timers_prepare nth_append invalidate_not_valid)
next
  assume "Player_State u = Some ''Playing'' \<and> (\<not> truthy (Artist u) \<or> \<not> truthy (Name u))"
  then show n: "receivedNotification e u w = (None, w)"
    by (auto simp: receivedNotification_def update_now_playing_def now_playing_kwargs_def)
  from assms show "isValid (timers (snd (receivedNotification e u w)) ! h)"
    by (simp add: n)
qed

theorem events_cancel_outstanding_timer_witness:
  "\<not> isValid (timers (snd (receivedNotification example_env
        (example_userinfo\<lparr>Player_State := Some ''Paused''\<rparr>)
        (scheduledTimer 100 example_userinfo initial))) ! 0)
   \<and> \<not> isValid (timers (snd (receivedNotification example_env example_userinfo
        (scheduledTimer 100 example_userinfo initial))) ! 0)
   \<and> isValid (timers (snd (receivedNotification example_env
        (example_userinfo\<lparr>Artist := None\<rparr>)
        (scheduledTimer 100 example_userinfo initial))) ! 0)"
proof -
  let ?w = "scheduledTimer 100 example_userinfo initial"
  have h: "scrobble_timer ?w = Some 0" "0 < length (timers ?w)" "isValid (timers ?w ! 0)"
    by (simp_all add: scheduledTimer_def initial_def isValid_def)
  have u: "Player_State (example_userinfo\<lparr>Player_State := Some ''Paused''\<rparr>) = Some ''Paused''"
    "Player_State example_userinfo = Some ''Playing'' \<and> truthy (Artist example_userinfo)
      \<and> truthy (Name example_userinfo) \<and> \<not> lastfm_raises example_env"
    "Player_State (example_userinfo\<lparr>Artist := None\<rparr>) = Some ''Playing''
      \<and> (\<not> truthy (Artist (example_userinfo\<lparr>Artist := None\<rparr>))
         \<or> \<not> truthy (Name (example_userinfo\<lparr>Artist := None\<rparr>)))"
    by (simp_all add: example_userinfo_def example_env_def)
  from events_cancel_outstanding_timer [OF h,
      of "example_userinfo\<lparr>Player_State := Some ''Paused''\<rparr>" example_env] u(1)
  have 1: "\<not> isValid (timers (snd (receivedNotification example_env
        (example_userinfo\<lparr>Player_State := Some ''Paused''\<rparr>) ?w)) ! 0)"
    by blast
  from events_cancel_outstanding_timer [OF h, of example_userinfo example_env] u(2)
  have 2: "\<not> isValid (timers (snd (receivedNotification example_env example_userinfo ?w)) ! 0)"
    by blast
  from events_cancel_outstanding_timer [OF h,
      of "example_userinfo\<lparr>Artist := None\<rparr>" example_env] u(3)
  have 3: "isValid (timers (snd (receivedNotification example_env
        (example_userinfo\<lparr>Artist := None\<rparr>) ?w)) ! 0)"
    by blast
  from 1 2 3 show ?thesis by blast
qed

section \<open>The persistent-id sign correction\<close>

lemma less_16_cases: "d < 16 \<Longrightarrow> d \<in> {0, 1, 2, 3, 4, 5, 6, 7, 8, 9, 10, 11, 12, 13, 14, 15 :: nat}"
  by (simp only: insert_iff empty_iff) presburger

lemma digit_value_hex_digit: "d < 16 \<Longrightarrow> digit_value (hex_digit d) = d"
  by (drule less_16_cases) (auto simp: digit_value_def hex_digit_def)

lemma hex_digit_in: "d < 16 \<Longrightarrow> hex_digit d \<in> set ''0123456789ABCDEF''"
  by (drule less_16_cases) (auto simp: hex_digit_def)

lemma hex_value_snoc: "hex_value (s @ [c]) = 16 * hex_value s + digit_value c"
  by (simp add: hex_value_def)

lemma hex_value_hex_upper: "hex_value (hex_upper n) = n"
proof (induction n rule: hex_upper.induct)
  case (1 n)
  show ?case
  proof (cases "n < 16")
    case True
    then show ?thesis
      by (subst hex_upper.simps) (simp add: hex_value_def digit_value_hex_digit)
  next
    case False
    with 1 show ?thesis
      by (subst hex_upper.simps) (simp add: hex_value_snoc digit_value_hex_digit)
  qed
qed

lemma set_hex_upper: "set (hex_upper n) \<subseteq> set ''0123456789ABCDEF''"
proof (induction n rule: hex_upper.induct)
  case (1 n)
  show ?case
  proof (cases "n < 16")
    case True
    then show ?thesis
      using hex_digit_in [of n] by (subst hex_upper.simps) simp
  next
    case False
    with 1 show ?thesis
      using hex_digit_in [of "n mod 16"] by (subst hex_upper.simps) simp
  qed
qed

lemma length_hex_upper: "16 ^ k \<le> n \<Longrightarrow> n < 16 ^ Suc k \<Longrightarrow> length (hex_upper n) = Suc k"
proof (induction k arbitrary: n)
  case 0
  then show ?case by (subst hex_upper.simps) simp
next
  case (Suc k)
  have "(16::nat) \<le> 16 ^ Suc k" by simp
  with Suc.prems(1) have ge: "16 \<le> n" by linarith
  have lo: "16 ^ k \<le> n div 16"
    using Suc.prems(1) by (simp add: less_eq_div_iff_mult_less_eq)
  have hi: "n div 16 < 16 ^ Suc k"
    using Suc.prems(2) by (simp add: less_mult_imp_div_less mult.commute)
  from Suc.IH [OF lo hi] ge show ?case
    by (subst hex_upper.simps) simp
qed

lemma hex_value_zero_pad: "hex_value (zero_pad w s) = hex_value s"
proof -
  have z: "digit_value (CHR ''0'') = 0" by (simp add: digit_value_def)
  have "foldl (\<lambda>a c. 16 * a + digit_value c) 0 (replicate k (CHR ''0'')) = 0" for k
    by (induction k) (simp_all add: z)
  then show ?thesis by (simp add: hex_value_def zero_pad_def)
qed

text \<open>
  Claim C7. For every negative signed 64-bit snapshot id \<open>v\<close> the id expected at fire
  time is \<open>v + 2^64\<close> written with exactly 16 uppercase hexadecimal digits: the string
  has length 16, holds only the characters \<open>0-9A-F\<close> and reads back as \<open>v + 2^64\<close>. In
  particular \<open>-1\<close> becomes \<open>2^64 - 1\<close>, formatted \<open>FFFFFFFFFFFFFFFF\<close>.
\<close>

theorem expected_id_of_negative:
  assumes "- (2 ^ 63) \<le> v" and "v < 0"
  shows "toUnsigned64 v = v + 2 ^ 64
       \<and> expected_persistent_id v = format_016X (v + 2 ^ 64)
       \<and> length (expected_persistent_id v) = 16
       \<and> set (expected_persistent_id v) \<subseteq> set ''0123456789ABCDEF''
       \<and> int (hex_value (expected_persistent_id v)) = v + 2 ^ 64
       \<and> toUnsigned64 (- 1) = 2 ^ 64 - 1
       \<and> format_016X (2 ^ 64 - 1) = ''FFFFFFFFFFFFFFFF''"
proof -
  define n where "n = nat (v + 2 ^ 64)"
  from assms have vn: "v + 2 ^ 64 = int n"
    by (simp add: n_def)
  from assms have u: "toUnsigned64 v = v + 2 ^ 64"
    by (simp add: toUnsigned64_def)
  from assms have "int (16 ^ 15) \<le> v + 2 ^ 64" by simp
  then have "int (16 ^ 15) \<le> int n" by (simp only: vn)
  then have lo: "16 ^ 15 \<le> n" by (simp only: of_nat_le_iff)
  from assms have "v + 2 ^ 64 < int (16 ^ Suc 15)" by simp
  then have "int n < int (16 ^ Suc 15)" by (simp only: vn)
  then have hi: "n < 16 ^ Suc 15" by (simp only: of_nat_less_iff)
  have len: "length (hex_upper n) = 16"
    using length_hex_upper [OF lo hi] by simp
  have "format_016X (int n) = hex_upper n"
    by (simp add: format_016X_def zero_pad_def len)
  then have e: "expected_persistent_id v = hex_upper n"
    by (simp only: expected_persistent_id_def u vn)
  have x: "expected_persistent_id v = format_016X (v + 2 ^ 64)"
    by (simp only: expected_persistent_id_def u)
  have m: "toUnsigned64 (- 1) = 2 ^ 64 - 1"
    by (simp add: toUnsigned64_def)
  have f: "format_016X (2 ^ 64 - 1) = ''FFFFFFFFFFFFFFFF''"
    by (simp add: format_016X_def zero_pad_def hex_upper_max64)
  have l: "length (expected_persistent_id v) = 16"
    by (simp only: e len)
  have c: "set (expected_persistent_id v) \<subseteq> set ''0123456789ABCDEF''"
    using set_hex_upper [of n] by (simp only: e)
  have r: "int (hex_value (expected_persistent_id v)) = v + 2 ^ 64"
    by (simp only: e hex_value_hex_upper vn)
  from u x l c r m f show ?thesis
    by blast
qed

theorem expected_id_of_negative_witness:
  "expected_persistent_id (- 1) = ''FFFFFFFFFFFFFFFF''
   \<and> length (expected_persistent_id (- (2 ^ 63))) = 16
   \<and> int (hex_value (expected_persistent_id (- (2 ^ 63)))) = 2 ^ 63"
proof -
  have a: "- (2 ^ 63) \<le> (- 1 :: int)" "(- 1 :: int) < 0"
    "- (2 ^ 63) \<le> (- (2 ^ 63) :: int)" "(- (2 ^ 63) :: int) < 0"
    by simp_all
  from expected_id_of_negative [OF a(1,2)]
  have "expected_persistent_id (- 1) = format_016X (- 1 + 2 ^ 64)"
    by blast
  then have 1: "expected_persistent_id (- 1) = ''FFFFFFFFFFFFFFFF''"
    by (simp add: format_016X_def zero_pad_def hex_upper_max64)
  from expected_id_of_negative [OF a(3,4)]
  have 2: "length (expected_persistent_id (- (2 ^ 63))) = 16"
    and "int (hex_value (expected_persistent_id (- (2 ^ 63)))) = - (2 ^ 63) + 2 ^ 64"
    by blast+
  then have 3: "int (hex_value (expected_persistent_id (- (2 ^ 63)))) = 2 ^ 63"
    by simp
  from 1 2 3 show ?thesis by blast
qed

section \<open>The stored timer reference\<close>

lemma scrobble_timer_submit [simp]: "scrobble_timer (snd (submit e kw w)) = scrobble_timer w"
  and timers_submit [simp]: "timers (snd (submit e kw w)) = timers w"
  by (simp_all add: submit_def Let_def)

lemma scrobble_timer_fired [simp]:
  "scrobble_timer (snd (scrobbleTimerFired e tm w)) = scrobble_timer w"
  by (simp add: scrobbleTimerFired_def Let_def split: option.splits)

lemma timers_fired [simp]: "timers (snd (scrobbleTimerFired e tm w)) = timers w"
  by (simp add: scrobbleTimerFired_def Let_def split: option.splits)

lemma scrobble_timer_mark_fired [simp]: "scrobble_timer (mark_fired h w) = scrobble_timer w"
  by (simp add: mark_fired_def)

lemma timers_mark_fired:
  "timers (mark_fired h w) =
     (if h < length (timers w) \<and> status (timers w ! h) = Scheduled
      then (timers w)[h := (timers w ! h)\<lparr>status := Fired\<rparr>] else timers w)"
  by (simp add: mark_fired_def)

lemma step_fire_field [simp]: "scrobble_timer (step w (TimerFires h e)) = scrobble_timer w"
  by simp

lemma step_fire_status:
  "h < length (timers w) \<Longrightarrow> isValid (timers w ! h) \<Longrightarrow>
   status (timers (step w (TimerFires h e)) ! h) = Fired"
  by (simp add: timers_mark_fired isValid_def)

lemma update_now_playing_field [simp]:
  "scrobble_timer (snd (update_now_playing e u w)) = scrobble_timer w"
  and update_now_playing_timers [simp]: "timers (snd (update_now_playing e u w)) = timers w"
  by (simp_all add: update_now_playing_def Let_def)

lemma cancel_fired_noop:
  "scrobble_timer w = Some h \<Longrightarrow> h < length (timers w) \<Longrightarrow> status (timers w ! h) = Fired \<Longrightarrow>
   timers (cancel_scrobble_timer w) = timers w"
  by (simp add: timers_cancel invalidate_def)

lemma field_reset_only_by_event:
  assumes "scrobble_timer w = Some h" and "scrobble_timer (step w ev) = None"
  shows "\<exists>e u. ev = Notification e u
           \<and> (Player_State u = Some ''Playing'' \<or> Player_State u = Some ''Paused''
              \<or> Player_State u = Some ''Stopped'')"
proof (cases ev)
  case (Notification e u)
  with assms show ?thesis
    by (auto simp: receivedNotification_def split: if_splits)
next
  case (TimerFires k e)
  with assms show ?thesis by (simp split: if_splits)
qed

text \<open>
  Claim C10. The fire handler never touches the \<open>scrobble_timer\<close> attribute: after a
  fire, whatever branch the handler took (submitted, abandoned or an exception), the
  attribute still holds the handle, and that timer has fired and is no longer valid.
  The attribute goes back to \<open>None\<close> only in \<open>cancel_scrobble_timer\<close>, reached from a
  later \<open>Playing\<close>, \<open>Paused\<close> or \<open>Stopped\<close> event; invalidating the fired timer there
  changes no timer.
\<close>

theorem fire_keeps_timer_reference:
  assumes "scrobble_timer w = Some h" and "h < length (timers w)" and "isValid (timers w ! h)"
  shows "scrobble_timer (snd (scrobbleTimerFired e (timers w ! h) w)) = Some h
       \<and> scrobble_timer (step w (TimerFires h e)) = Some h
       \<and> status (timers (step w (TimerFires h e)) ! h) = Fired
       \<and> \<not> isValid (timers (step w (TimerFires h e)) ! h)
       \<and> scrobble_timer (cancel_scrobble_timer (step w (TimerFires h e))) = None
       \<and> timers (cancel_scrobble_timer (step w (TimerFires h e))) =
           timers (step w (TimerFires h e))
       \<and> (scrobble_timer (step (step w (TimerFires h e)) ev) = None \<longrightarrow>
            (\<exists>e' u. ev = Notification e' u
               \<and> (Player_State u = Some ''Playing'' \<or> Player_State u = Some ''Paused''
                  \<or> Player_State u = Some ''Stopped'')))
       \<and> (Player_State u = Some ''Paused'' \<or> Player_State u = Some ''Stopped'' \<longrightarrow>
            snd (receivedNotification e' u (step w (TimerFires h e))) =
              cancel_scrobble_timer (step w (TimerFires h e)))"
proof -
  let ?w = "step w (TimerFires h e)"
  have f: "scrobble_timer ?w = Some h"
    using assms(1) by (simp only: step_fire_field)
  have s: "status (timers ?w ! h) = Fired"
    using assms(2,3) by (rule step_fire_status)
  have l: "h < length (timers ?w)"
    using assms(2) by (simp add: timers_mark_fired)
  have 1: "scrobble_timer (snd (scrobbleTimerFired e (timers w ! h) w)) = Some h"
    using assms(1) by simp
  have 4: "\<not> isValid (timers ?w ! h)"
    using s by (simp add: isValid_def)
  have 5: "scrobble_timer (cancel_scrobble_timer ?w) = None"
    by (rule scrobble_timer_cancel)
  have 6: "timers (cancel_scrobble_timer ?w) = timers ?w"
    using f l s by (rule cancel_fired_noop)
  have 7: "scrobble_timer (step ?w ev) = None \<longrightarrow>
            (\<exists>e' u. ev = Notification e' u
               \<and> (Player_State u = Some ''Playing'' \<or> Player_State u = Some ''Paused''
                  \<or> Player_State u = Some ''Stopped''))"
    using field_reset_only_by_event [OF f] by blast
  have 8: "Player_State u = Some ''Paused'' \<or> Player_State u = Some ''Stopped'' \<longrightarrow>
            snd (receivedNotification e' u ?w) = cancel_scrobble_timer ?w"
    by (auto simp: receivedNotification_def)
  from 1 f s 4 5 6 7 8 show ?thesis
    by blast
qed

theorem fire_keeps_timer_reference_witness:
  "scrobble_timer (step (scheduledTimer 100 example_userinfo initial)
      (TimerFires 0 example_env)) = Some 0
   \<and> status (timers (step (scheduledTimer 100 example_userinfo initial)
      (TimerFires 0 example_env)) ! 0) = Fired
   \<and> scrobble_timer (cancel_scrobble_timer (step (scheduledTimer 100 example_userinfo initial)
      (TimerFires 0 example_env))) = None
   \<and> timers (cancel_scrobble_timer (step (scheduledTimer 100 example_userinfo initial)
      (TimerFires 0 example_env))) =
     timers (step (scheduledTimer 100 example_userinfo initial) (TimerFires 0 example_env))"
proof -
  let ?w = "scheduledTimer 100 example_userinfo initial"
  have h: "scrobble_timer ?w = Some 0" "0 < length (timers ?w)" "isValid (timers ?w ! 0)"
    by (simp_all add: scheduledTimer_def initial_def isValid_def)
  from fire_keeps_timer_reference [OF h, of example_env] show ?thesis
    by blast
qed

section \<open>At most one live timer\<close>

lemma timer_inv_emit [simp]: "timer_inv (emit a w) = timer_inv w"
  by (simp add: timer_inv_def)

lemma no_live_after_cancel:
  assumes "timer_inv w" and "h < length (timers w)"
  shows "\<not> isValid (timers (cancel_scrobble_timer w) ! h)"
proof (cases "scrobble_timer w")
  case None
  with assms show ?thesis
    by (auto simp: timer_inv_def timers_cancel)
next
  case (Some k)
  with assms show ?thesis
    by (auto simp: timer_inv_def timers_cancel invalidate_nth isValid_def)
qed

lemma timer_inv_cancel: "timer_inv w \<Longrightarrow> timer_inv (cancel_scrobble_timer w)"
  using no_live_after_cancel [of w] by (simp add: timer_inv_def)

lemma timer_inv_prepare:
  assumes "timer_inv w"
  shows "timer_inv (prepare_to_scrobble e u w)"
  unfolding timer_inv_def
proof (intro allI impI)
  fix h
  assume a: "h < length (timers (prepare_to_scrobble e u w))
    \<and> isValid (timers (prepare_to_scrobble e u w) ! h)"
  show "scrobble_timer (prepare_to_scrobble e u w) = Some h"
  proof (cases "h < length (timers w)")
    case True
    with a no_live_after_cancel [OF assms True] show ?thesis
      by (simp add: timers_prepare nth_append)
  next
    case False
    with a show ?thesis
      by (auto simp: timers_prepare scrobble_timer_prepare split: if_splits decision.splits)
  qed
qed

lemma timer_inv_update_now_playing:
  "timer_inv w \<Longrightarrow> timer_inv (snd (update_now_playing e u w))"
  by (simp add: timer_inv_def)

lemma timer_inv_notification:
  assumes "timer_inv w"
  shows "timer_inv (snd (receivedNotification e u w))"
proof -
  have "snd (receivedNotification e u w) = snd (update_now_playing e u w)
      \<or> snd (receivedNotification e u w) = prepare_to_scrobble e u (snd (update_now_playing e u w))
      \<or> snd (receivedNotification e u w) = cancel_scrobble_timer w
      \<or> snd (receivedNotification e u w) = emit (Log INFO unrecognised_state) w"
    by (auto simp: receivedNotification_def Let_def split: prod.splits sum.splits)
  with assms show ?thesis
    by (auto simp: timer_inv_update_now_playing timer_inv_prepare timer_inv_cancel)
qed

lemma length_timers_mark_fired [simp]: "length (timers (mark_fired h w)) = length (timers w)"
  by (simp add: timers_mark_fired)

lemma valid_after_mark_fired:
  "k < length (timers w) \<Longrightarrow> isValid (timers (mark_fired h w) ! k) \<Longrightarrow> isValid (timers w ! k)"
  by (simp add: timers_mark_fired nth_list_update isValid_def split: if_splits)

lemma timer_inv_mark_fired:
  assumes "timer_inv w"
  shows "timer_inv (mark_fired h w)"
  unfolding timer_inv_def
proof (intro allI impI)
  fix k
  assume "k < length (timers (mark_fired h w)) \<and> isValid (timers (mark_fired h w) ! k)"
  then have k: "k < length (timers w)" and v: "isValid (timers (mark_fired h w) ! k)"
    by simp_all
  from k v have "isValid (timers w ! k)"
    by (rule valid_after_mark_fired)
  with k have "k < length (timers w)" and "isValid (timers w ! k)"
    by simp_all
  with assms show "scrobble_timer (mark_fired h w) = Some k"
    by (simp add: timer_inv_def)
qed

lemma timer_inv_fired: "timer_inv w \<Longrightarrow> timer_inv (snd (scrobbleTimerFired e tm w))"
  by (simp add: timer_inv_def)

lemma timer_inv_step: "timer_inv w \<Longrightarrow> timer_inv (step w ev)"
  by (cases ev) (simp_all add: timer_inv_notification timer_inv_mark_fired timer_inv_fired)

lemma timer_inv_run: "timer_inv w \<Longrightarrow> timer_inv (run w evs)"
  unfolding run_def by (induction evs arbitrary: w) (simp_all add: timer_inv_step)

lemma timer_inv_initial: "timer_inv initial"
  by (simp add: timer_inv_def initial_def)

lemma set_live_handles:
  "set (live_handles w) = {h. h < length (timers w) \<and> isValid (timers w ! h)}"
  by (auto simp: live_handles_def)

lemma distinct_live_handles: "distinct (live_handles w)"
  by (simp add: live_handles_def)

lemma live_handles_inv:
  assumes "timer_inv w"
  shows "length (live_handles w) \<le> 1" and "set (live_handles w) \<subseteq> set_option (scrobble_timer w)"
proof -
  from assms show s: "set (live_handles w) \<subseteq> set_option (scrobble_timer w)"
    by (auto simp: set_live_handles timer_inv_def)
  have "card (set (live_handles w)) \<le> card (set_option (scrobble_timer w))"
    using s by (intro card_mono) (auto split: option.splits)
  also have "\<dots> \<le> 1"
    by (cases "scrobble_timer w") simp_all
  finally show "length (live_handles w) \<le> 1"
    by (simp add: distinct_card [OF distinct_live_handles])
qed

lemma live_handles_cancel:
  assumes "timer_inv w"
  shows "live_handles (cancel_scrobble_timer w) = []"
proof -
  have "set (live_handles (cancel_scrobble_timer w)) = {}"
    using no_live_after_cancel [OF assms] by (auto simp: set_live_handles)
  then show ?thesis by simp
qed

text \<open>
  Claim C3. After any sequence of events delivered by the run loop (notifications and
  timer fires, in any order, with any answers from the player and the service) at most
  one timer is live, and a live timer is the one the \<open>scrobble_timer\<close> attribute holds.
  A new timer is only created in \<open>prepare_to_scrobble\<close>, after its call of
  \<open>cancel_scrobble_timer\<close>; at that point no timer is live, so the new timer is the only
  live one.
\<close>

theorem at_most_one_live_timer:
  "length (live_handles (run initial evs)) \<le> 1
   \<and> set (live_handles (run initial evs)) \<subseteq> set_option (scrobble_timer (run initial evs))
   \<and> live_handles (cancel_scrobble_timer (snd (update_now_playing e u (run initial evs)))) = []
   \<and> set (live_handles (prepare_to_scrobble e u (snd (update_now_playing e u (run initial evs)))))
       \<subseteq> {length (timers (run initial evs))}"
proof -
  let ?w = "run initial evs"
  let ?v = "snd (update_now_playing e u ?w)"
  have i: "timer_inv ?w"
    using timer_inv_initial by (rule timer_inv_run)
  then have j: "timer_inv ?v"
    by (rule timer_inv_update_now_playing)
  have 4: "set (live_handles (prepare_to_scrobble e u ?v)) \<subseteq> {length (timers ?w)}"
  proof
    fix h
    assume "h \<in> set (live_handles (prepare_to_scrobble e u ?v))"
    then have a: "h < length (timers (prepare_to_scrobble e u ?v))"
      "isValid (timers (prepare_to_scrobble e u ?v) ! h)"
      by (simp_all add: set_live_handles)
    have "\<not> h < length (timers ?w)"
    proof
      assume b: "h < length (timers ?w)"
      then have "h < length (timers ?v)" by simp
      from no_live_after_cancel [OF j this] a(2) b show False
        by (simp add: timers_prepare nth_append)
    qed
    with a(1) show "h \<in> {length (timers ?w)}"
      by (auto simp: timers_prepare split: if_splits decision.splits)
  qed
  from live_handles_inv [OF i] live_handles_cancel [OF j] 4 show ?thesis
    by blast
qed

theorem at_most_one_live_timer_witness:
  "length (live_handles (run initial
      [Notification example_env example_userinfo,
       Notification example_env (example_userinfo\<lparr>Name := Some ''Feeling Good''\<rparr>),
       TimerFires 1 example_env])) \<le> 1
   \<and> live_handles (cancel_scrobble_timer (snd (update_now_playing example_env example_userinfo
        (run initial
          [Notification example_env example_userinfo,
           Notification example_env (example_userinfo\<lparr>Name := Some ''Feeling Good''\<rparr>),
           TimerFires 1 example_env])))) = []"
  using at_most_one_live_timer [of
      "[Notification example_env example_userinfo,
        Notification example_env (example_userinfo\<lparr>Name := Some ''Feeling Good''\<rparr>),
        TimerFires 1 example_env]" example_env example_userinfo]
  by blast

end
